theory Spec2Isabelle
  imports Main "HOL-Library.Word"
begin

section \<open>hypre memory management utilities (src/utilities/memory.c)\<close>

text \<open>
  A shallow embedding of the physical memory-location interface of memory.c
  (\<^verbatim>\<open>hypre_MAlloc_core\<close>, \<^verbatim>\<open>hypre_Free_core\<close>, \<^verbatim>\<open>hypre_Memcpy_core\<close>, the two
  execution-policy resolvers) and of the conceptual interface built on it
  (\<^verbatim>\<open>hypre_MAlloc\<close>, \<^verbatim>\<open>hypre_Free\<close>, \<^verbatim>\<open>hypre_Memcpy\<close>, \<^verbatim>\<open>hypre_ReAlloc\<close>,
  \<^verbatim>\<open>hypre_ReAlloc_v2\<close>).

  The C code is one text compiled into many programs: the preprocessor symbols
  decide which vendor primitives are called.  The symbols are fields of the record
  \<open>build\<close>; a \<^verbatim>\<open>#if defined(X)\<close> block becomes a conditional on the field \<open>X\<close>.
  Everything the code does beyond returning a value is explicit: the process state is
  the record \<open>world\<close>, every call of a vendor or libc primitive is appended to its
  \<open>trace\<close>, and a run that terminates the process is the value \<open>Abort\<close>.

  Addresses and sizes are natural numbers (\<^verbatim>\<open>NULL\<close> is \<open>0\<close>).  The functions below only
  compare sizes; the two places that compute with them (the product in \<^verbatim>\<open>hypre_CAlloc\<close>,
  the sum in the OpenMP offload allocator) wrap at the width of \<^verbatim>\<open>size_t\<close>.
\<close>

subsection \<open>Enumerations\<close>

text \<open>
  Modelled from the spec: the enumerations are declared in headers that are not part of
  memory.c.  \<open>hypre_MemoryLocation\<close> is the closed enumeration of physical spaces with
  its sentinel, \<open>HYPRE_ExecutionPolicy\<close> the closed enumeration \<open>Host\<close>, \<open>Device\<close>,
  \<open>Undefined\<close>, and \<open>HYPRE_MemoryLocation\<close> the caller-facing conceptual location.
\<close>

datatype hypre_MemoryLocation =
    hypre_MEMORY_UNDEFINED
  | hypre_MEMORY_HOST
  | hypre_MEMORY_HOST_PINNED
  | hypre_MEMORY_DEVICE
  | hypre_MEMORY_UNIFIED

datatype HYPRE_ExecutionPolicy =
    HYPRE_EXEC_UNDEFINED
  | HYPRE_EXEC_HOST
  | HYPRE_EXEC_DEVICE

datatype HYPRE_MemoryLocation =
    HYPRE_MEMORY_UNDEFINED
  | HYPRE_MEMORY_HOST
  | HYPRE_MEMORY_DEVICE

datatype error_code = HYPRE_ERROR_GENERIC | HYPRE_ERROR_MEMORY

subsection \<open>Build configuration\<close>

text \<open>
  The preprocessor symbols memory.c tests.  Two further fields stand for code the file
  uses but does not contain:
  \<^item> \<open>hypre_assert_aborts\<close>: the macro \<^verbatim>\<open>hypre_assert\<close> is defined in a header.  The file
    itself never relies on a failed \<^verbatim>\<open>hypre_assert(0)\<close> to stop the process (it is
    followed by \<^verbatim>\<open>fflush\<close>, by \<^verbatim>\<open>hypre_MPI_Abort\<close>, by \<^verbatim>\<open>return\<close>), so whether a failed
    assertion terminates the process is a parameter of the build.
  \<^item> \<open>hypre_GetActualMemLocation\<close>: the resolution of a conceptual location to a
    physical one, an inline function of a header; taken as a parameter.
\<close>

record build =
  HYPRE_DEBUG :: bool
  HYPRE_USING_GPU :: bool
  HYPRE_USING_DEVICE_OPENMP :: bool
  HYPRE_DEVICE_OPENMP_ALLOC :: bool
  HYPRE_USING_CUDA :: bool
  HYPRE_USING_DEVICE_POOL :: bool
  HYPRE_USING_DEVICE_MALLOC_ASYNC :: bool
  HYPRE_USING_HIP :: bool
  HYPRE_USING_SYCL :: bool
  HYPRE_USING_UMPIRE_HOST :: bool
  HYPRE_USING_UMPIRE_DEVICE :: bool
  HYPRE_USING_UMPIRE_UM :: bool
  HYPRE_USING_UMPIRE_PINNED :: bool
  hypre_assert_aborts :: bool
  hypre_GetActualMemLocation :: "HYPRE_MemoryLocation \<Rightarrow> hypre_MemoryLocation"

subsection \<open>Process state\<close>

text \<open>
  An \<open>event\<close> is something the process did that is visible outside the function:
  a line printed, an error recorded on the global error channel, a flush of stdout, or a
  call of a libc, vendor or pool primitive (its name and its numeric arguments).
\<close>

datatype event =
    Printf string "nat list"
  | Error_w_msg error_code string "nat list"
  | Fflush_stdout
  | Call string "nat list"

text \<open>
  The state of the process and of the memory spaces it can reach:
  \<^item> \<open>memory\<close>: the byte at each address;
  \<^item> \<open>live\<close>: the blocks handed out by an allocator and not yet released, with their sizes;
  \<^item> \<open>size_header\<close>: the \<^verbatim>\<open>size_t\<close> stored in front of a block by the OpenMP offload
    allocator;
  \<^item> \<open>pointer_attribute\<close>: what the vendor runtime's pointer query answers;
  \<^item> \<open>alloc_results\<close>: the addresses the allocators will yield at their next calls, in order
    (\<open>0\<close>, or an exhausted list, is a failed allocation);
  \<^item> \<open>default_exec_policy\<close>, \<open>user_device_malloc\<close>, \<open>user_device_mfree\<close>: the fields
    of the global handle the file reads (the last two: whether a callback is registered);
  \<^item> \<open>trace\<close>: the events so far, oldest first.
\<close>

record world =
  memory :: "nat \<Rightarrow> 8 word"
  live :: "nat \<rightharpoonup> nat"
  size_header :: "nat \<Rightarrow> nat"
  pointer_attribute :: "nat \<Rightarrow> hypre_MemoryLocation"
  alloc_results :: "nat list"
  default_exec_policy :: HYPRE_ExecutionPolicy
  user_device_malloc :: bool
  user_device_mfree :: bool
  trace :: "event list"

text \<open>
  A call either returns a value in a new state, or the process is terminated.
\<close>

datatype fatal =
    Assertion_failed
  | Location_check_failed
  | MPI_Aborted
  | Null_dereference

datatype 'a outcome = Return 'a world | Abort fatal world

definition and_then :: "'a outcome \<Rightarrow> ('a \<Rightarrow> world \<Rightarrow> 'b outcome) \<Rightarrow> 'b outcome" where
  "and_then m f = (case m of Return x w \<Rightarrow> f x w | Abort e w \<Rightarrow> Abort e w)"

fun final :: "'a outcome \<Rightarrow> world" where
  "final (Return x w) = w"
| "final (Abort e w) = w"

fun returns :: "'a outcome \<Rightarrow> bool" where
  "returns (Return x w) = True"
| "returns (Abort e w) = False"

definition emit :: "event \<Rightarrow> world \<Rightarrow> world" where
  "emit e w = w\<lparr>trace := trace w @ [e]\<rparr>"

definition when_defined :: "bool \<Rightarrow> (world \<Rightarrow> world) \<Rightarrow> world \<Rightarrow> world" where
  "when_defined flag f w = (if flag then f w else w)"

definition newline :: string where
  "newline = [CHR 0x0A]"

subsection \<open>Primitives outside the file\<close>

text \<open>
  The libc, vendor and pool primitives are the backend of the layer.  Each is modelled by
  its effect on the state and an entry in the trace.  The error-checking wrappers
  (\<^verbatim>\<open>HYPRE_CUDA_CALL\<close> and its like) are macros of a header and are taken to pass the call
  through.
\<close>

definition copy_bytes :: "nat \<Rightarrow> nat \<Rightarrow> nat \<Rightarrow> (nat \<Rightarrow> 8 word) \<Rightarrow> nat \<Rightarrow> 8 word" where
  "copy_bytes dst src nbytes m a =
     (if dst \<le> a \<and> a < dst + nbytes then m (src + (a - dst)) else m a)"

definition set_bytes :: "nat \<Rightarrow> 8 word \<Rightarrow> nat \<Rightarrow> (nat \<Rightarrow> 8 word) \<Rightarrow> nat \<Rightarrow> 8 word" where
  "set_bytes p v nbytes m a = (if p \<le> a \<and> a < p + nbytes then v else m a)"

definition native_copy :: "string \<Rightarrow> nat \<Rightarrow> nat \<Rightarrow> nat \<Rightarrow> world \<Rightarrow> world" where
  "native_copy name dst src nbytes w =
     emit (Call name [dst, src, nbytes])
       (w\<lparr>memory := copy_bytes dst src nbytes (memory w)\<rparr>)"

definition native_memset :: "string \<Rightarrow> nat \<Rightarrow> int \<Rightarrow> nat \<Rightarrow> world \<Rightarrow> world" where
  "native_memset name p val nbytes w =
     emit (Call name [p, nat (val mod 256), nbytes])
       (w\<lparr>memory := set_bytes p (word_of_int val) nbytes (memory w)\<rparr>)"

definition native_alloc ::
  "string \<Rightarrow> hypre_MemoryLocation \<Rightarrow> nat \<Rightarrow> world \<Rightarrow> nat \<times> world" where
  "native_alloc name loc nbytes w =
     (let p = (case alloc_results w of [] \<Rightarrow> 0 | q # qs \<Rightarrow> q);
          w1 = emit (Call name [nbytes]) (w\<lparr>alloc_results := tl (alloc_results w)\<rparr>)
      in if p = 0 then (0, w1)
         else (p, w1\<lparr>live := (live w1)(p \<mapsto> nbytes),
                     pointer_attribute := (pointer_attribute w1)(p := loc)\<rparr>))"

definition native_free :: "string \<Rightarrow> nat \<Rightarrow> world \<Rightarrow> world" where
  "native_free name p w = emit (Call name [p]) (w\<lparr>live := (live w)(p := None)\<rparr>)"

definition native_realloc :: "string \<Rightarrow> nat \<Rightarrow> nat \<Rightarrow> world \<Rightarrow> nat \<times> world" where
  "native_realloc name p nbytes w =
     (let q = (case alloc_results w of [] \<Rightarrow> 0 | r # rs \<Rightarrow> r);
          w1 = emit (Call name [p, nbytes]) (w\<lparr>alloc_results := tl (alloc_results w)\<rparr>);
          old = (case live w p of None \<Rightarrow> 0 | Some k \<Rightarrow> k)
      in if q = 0 then (0, w1)
         else (q, w1\<lparr>memory := copy_bytes q p (min old nbytes) (memory w1),
                     live := ((live w1)(p := None))(q \<mapsto> nbytes),
                     pointer_attribute := (pointer_attribute w1)(q := hypre_MEMORY_HOST)\<rparr>))"

definition HYPRE_OMPOffload :: "string \<Rightarrow> string \<Rightarrow> nat \<Rightarrow> nat \<Rightarrow> world \<Rightarrow> world" where
  "HYPRE_OMPOffload type1 type2 p nbytes w =
     emit (Call (''HYPRE_OMPOffload '' @ type1 @ '' '' @ type2) [p, nbytes]) w"

definition hypre_printf :: "string \<Rightarrow> nat list \<Rightarrow> world \<Rightarrow> world" where
  "hypre_printf format args w = emit (Printf format args) w"

definition hypre_error_w_msg :: "error_code \<Rightarrow> string \<Rightarrow> nat list \<Rightarrow> world \<Rightarrow> world" where
  "hypre_error_w_msg code format args w = emit (Error_w_msg code format args) w"

definition hypre_assert :: "build \<Rightarrow> bool \<Rightarrow> world \<Rightarrow> unit outcome" where
  "hypre_assert cfg ex w =
     (if ex then Return () w
      else if hypre_assert_aborts cfg then Abort Assertion_failed w
      else Return () w)"

text \<open>
  Modelled from the spec: \<^verbatim>\<open>hypre_MPI_Abort\<close> is defined in another file; it terminates
  the process.
\<close>

definition hypre_MPI_Abort :: "world \<Rightarrow> 'a outcome" where
  "hypre_MPI_Abort w = Abort MPI_Aborted (emit (Call ''hypre_MPI_Abort'' []) w)"

subsection \<open>Helper routines\<close>

definition hypre_OutOfMemory :: "build \<Rightarrow> nat \<Rightarrow> world \<Rightarrow> unit outcome" where
  "hypre_OutOfMemory cfg nbytes w =
     and_then
       (hypre_assert cfg False
          (hypre_error_w_msg HYPRE_ERROR_MEMORY
             (''Out of memory trying to allocate %zu bytes'' @ newline) [nbytes] w))
       (\<lambda>u w1. Return () (emit Fflush_stdout w1))"

definition hypre_WrongMemoryLocation :: "build \<Rightarrow> world \<Rightarrow> unit outcome" where
  "hypre_WrongMemoryLocation cfg w =
     and_then
       (hypre_assert cfg False
          (hypre_error_w_msg HYPRE_ERROR_MEMORY
             (''Unrecognized hypre_MemoryLocation'' @ newline) [] w))
       (\<lambda>u w1. Return () (emit Fflush_stdout w1))"

text \<open>
  \<^verbatim>\<open>hypre_GetPointerLocation\<close> asks the vendor runtime for the attributes of a pointer
  and translates the answer; the answer is the field \<open>pointer_attribute\<close> of the state.
  Without \<^verbatim>\<open>HYPRE_USING_GPU\<close> every pointer is a host pointer.
\<close>

definition hypre_GetPointerLocation :: "build \<Rightarrow> nat \<Rightarrow> world \<Rightarrow> hypre_MemoryLocation" where
  "hypre_GetPointerLocation cfg p w =
     (if HYPRE_USING_GPU cfg then pointer_attribute w p else hypre_MEMORY_HOST)"

definition hypre_CheckMemoryLocation ::
  "build \<Rightarrow> nat \<Rightarrow> hypre_MemoryLocation \<Rightarrow> world \<Rightarrow> unit outcome" where
  "hypre_CheckMemoryLocation cfg p location w =
     (if HYPRE_DEBUG cfg \<and> HYPRE_USING_GPU cfg then
        (if p = 0 then Return () w
         else if location = hypre_GetPointerLocation cfg p w then Return () w
         else Abort Location_check_failed w)
      else Return () w)"

subsection \<open>Execution policy\<close>

definition hypre_GetExecPolicy1_core ::
  "build \<Rightarrow> hypre_MemoryLocation \<Rightarrow> world \<Rightarrow> HYPRE_ExecutionPolicy outcome" where
  "hypre_GetExecPolicy1_core cfg location w =
     and_then
       (case location of
          hypre_MEMORY_HOST \<Rightarrow> Return HYPRE_EXEC_HOST w
        | hypre_MEMORY_HOST_PINNED \<Rightarrow> Return HYPRE_EXEC_HOST w
        | hypre_MEMORY_DEVICE \<Rightarrow> Return HYPRE_EXEC_DEVICE w
        | hypre_MEMORY_UNIFIED \<Rightarrow>
            Return (if HYPRE_USING_GPU cfg \<or> HYPRE_USING_DEVICE_OPENMP cfg
                    then default_exec_policy w else HYPRE_EXEC_UNDEFINED) w
        | hypre_MEMORY_UNDEFINED \<Rightarrow>
            and_then (hypre_WrongMemoryLocation cfg w) (\<lambda>u. Return HYPRE_EXEC_UNDEFINED))
       (\<lambda>exec w1.
          and_then (hypre_assert cfg (exec \<noteq> HYPRE_EXEC_UNDEFINED) w1) (\<lambda>u. Return exec))"

definition hypre_GetExecPolicy2_core ::
  "build \<Rightarrow> hypre_MemoryLocation \<Rightarrow> hypre_MemoryLocation \<Rightarrow> world
     \<Rightarrow> HYPRE_ExecutionPolicy outcome" where
  "hypre_GetExecPolicy2_core cfg location1 location2 w =
     (let l1 = (if location1 = hypre_MEMORY_HOST_PINNED then hypre_MEMORY_HOST else location1);
          l2 = (if location2 = hypre_MEMORY_HOST_PINNED then hypre_MEMORY_HOST else location2);
          exec0 = HYPRE_EXEC_UNDEFINED;
          exec1 = (if (l1 = hypre_MEMORY_HOST \<and> l2 = hypre_MEMORY_DEVICE) \<or>
                      (l2 = hypre_MEMORY_HOST \<and> l1 = hypre_MEMORY_DEVICE)
                   then HYPRE_EXEC_UNDEFINED else exec0);
          exec2 = (if (l1 = hypre_MEMORY_UNIFIED \<and> l2 = hypre_MEMORY_DEVICE) \<or>
                      (l2 = hypre_MEMORY_UNIFIED \<and> l1 = hypre_MEMORY_DEVICE)
                   then HYPRE_EXEC_UNDEFINED else exec1);
          exec3 = (if l1 = hypre_MEMORY_UNIFIED \<and> l2 = hypre_MEMORY_UNIFIED
                   then (if HYPRE_USING_GPU cfg \<or> HYPRE_USING_DEVICE_OPENMP cfg
                         then default_exec_policy w else exec2)
                   else exec2);
          exec4 = (if l1 = hypre_MEMORY_HOST \<or> l2 = hypre_MEMORY_HOST
                   then HYPRE_EXEC_HOST else exec3);
          exec5 = (if l1 = hypre_MEMORY_DEVICE \<or> l2 = hypre_MEMORY_DEVICE
                   then HYPRE_EXEC_DEVICE else exec4)
      in and_then (hypre_assert cfg (exec5 \<noteq> HYPRE_EXEC_UNDEFINED) w) (\<lambda>u. Return exec5))"

definition hypre_GetExecPolicy1 ::
  "build \<Rightarrow> HYPRE_MemoryLocation \<Rightarrow> world \<Rightarrow> HYPRE_ExecutionPolicy outcome" where
  "hypre_GetExecPolicy1 cfg location w =
     hypre_GetExecPolicy1_core cfg (hypre_GetActualMemLocation cfg location) w"

definition hypre_GetExecPolicy2 ::
  "build \<Rightarrow> HYPRE_MemoryLocation \<Rightarrow> HYPRE_MemoryLocation \<Rightarrow> world
     \<Rightarrow> HYPRE_ExecutionPolicy outcome" where
  "hypre_GetExecPolicy2 cfg location1 location2 w =
     hypre_GetExecPolicy2_core cfg (hypre_GetActualMemLocation cfg location1)
       (hypre_GetActualMemLocation cfg location2) w"

subsection \<open>Memset and prefetch\<close>

definition hypre_HostMemset :: "nat \<Rightarrow> int \<Rightarrow> nat \<Rightarrow> world \<Rightarrow> world" where
  "hypre_HostMemset p val num w = native_memset ''memset'' p val num w"

definition hypre_DeviceMemset :: "build \<Rightarrow> nat \<Rightarrow> int \<Rightarrow> nat \<Rightarrow> world \<Rightarrow> world" where
  "hypre_DeviceMemset cfg p val num w =
     (if HYPRE_USING_DEVICE_OPENMP cfg then
        (if HYPRE_DEVICE_OPENMP_ALLOC cfg
         then native_memset ''omp target teams: set bytes'' p val num w
         else HYPRE_OMPOffload ''update'' ''to'' p num (native_memset ''memset'' p val num w))
      else if HYPRE_USING_CUDA cfg then native_memset ''cudaMemset'' p val num w
      else if HYPRE_USING_HIP cfg then native_memset ''hipMemset'' p val num w
      else if HYPRE_USING_SYCL cfg then native_memset ''sycl::queue::memset'' p val num w
      else w)"

definition hypre_UnifiedMemset :: "build \<Rightarrow> nat \<Rightarrow> int \<Rightarrow> nat \<Rightarrow> world \<Rightarrow> world" where
  "hypre_UnifiedMemset cfg p val num w =
     (if HYPRE_USING_DEVICE_OPENMP cfg then
        (if HYPRE_DEVICE_OPENMP_ALLOC cfg
         then native_memset ''omp target teams: set bytes'' p val num w
         else HYPRE_OMPOffload ''update'' ''to'' p num (native_memset ''memset'' p val num w))
      else if HYPRE_USING_CUDA cfg then native_memset ''cudaMemset'' p val num w
      else if HYPRE_USING_HIP cfg then native_memset ''hipMemset'' p val num w
      else if HYPRE_USING_SYCL cfg then native_memset ''sycl::queue::memset'' p val num w
      else w)"

definition hypre_UnifiedMemPrefetch ::
  "build \<Rightarrow> nat \<Rightarrow> nat \<Rightarrow> hypre_MemoryLocation \<Rightarrow> world \<Rightarrow> unit outcome" where
  "hypre_UnifiedMemPrefetch cfg p nbytes location w =
     (if nbytes = 0 then Return () w
      else and_then (hypre_CheckMemoryLocation cfg p hypre_MEMORY_UNIFIED w)
        (\<lambda>u w1.
           if HYPRE_USING_CUDA cfg then
             (if location = hypre_MEMORY_DEVICE
              then Return () (emit (Call ''cudaMemPrefetchAsync to device'' [p, nbytes]) w1)
              else if location = hypre_MEMORY_HOST
              then Return () (emit (Call ''cudaMemPrefetchAsync to host'' [p, nbytes]) w1)
              else Return () w1)
           else Return () w1))"

subsection \<open>Malloc\<close>

text \<open>
  The OpenMP offload allocator without \<^verbatim>\<open>HYPRE_DEVICE_OPENMP_ALLOC\<close> takes a host block
  with room for a \<^verbatim>\<open>size_t\<close> in front, stores the size there and maps the rest to the
  device.  The sum \<^verbatim>\<open>size + sizeof(size_t)\<close> wraps at the width of \<^verbatim>\<open>size_t\<close>; the store
  goes through the pointer \<^verbatim>\<open>malloc\<close> returned, unchecked.
\<close>

definition sizeof_size_t :: nat where
  "sizeof_size_t = 8"

definition omp_mapped_alloc :: "nat \<Rightarrow> world \<Rightarrow> nat outcome" where
  "omp_mapped_alloc nbytes w =
     (case native_alloc ''malloc'' hypre_MEMORY_HOST
             ((nbytes + sizeof_size_t) mod 2 ^ (8 * sizeof_size_t)) w of
        (sp, w1) \<Rightarrow>
          if sp = 0 then Abort Null_dereference w1
          else Return (sp + sizeof_size_t)
                 (HYPRE_OMPOffload ''enter'' ''alloc'' (sp + sizeof_size_t) nbytes
                    (w1\<lparr>size_header := (size_header w1)(sp + sizeof_size_t := nbytes)\<rparr>)))"

definition hypre_HostMalloc :: "build \<Rightarrow> nat \<Rightarrow> bool \<Rightarrow> world \<Rightarrow> nat outcome" where
  "hypre_HostMalloc cfg nbytes zeroinit w =
     (if HYPRE_USING_UMPIRE_HOST cfg then
        (case native_alloc ''hypre_umpire_host_pooled_allocate'' hypre_MEMORY_HOST nbytes w of
           (p, w1) \<Rightarrow>
             if zeroinit then
               (if p = 0 then Abort Null_dereference w1
                else Return p (native_memset ''memset'' p 0 nbytes w1))
             else Return p w1)
      else if zeroinit then
        (case native_alloc ''calloc'' hypre_MEMORY_HOST nbytes w of
           (p, w1) \<Rightarrow>
             Return p (if p = 0 then w1
                       else w1\<lparr>memory := set_bytes p 0 nbytes (memory w1)\<rparr>))
      else
        (case native_alloc ''malloc'' hypre_MEMORY_HOST nbytes w of
           (p, w1) \<Rightarrow> Return p w1))"

definition hypre_DeviceMalloc :: "build \<Rightarrow> nat \<Rightarrow> bool \<Rightarrow> world \<Rightarrow> nat outcome" where
  "hypre_DeviceMalloc cfg nbytes zeroinit w =
     and_then
       (if user_device_malloc w then
          (case native_alloc ''user device malloc'' hypre_MEMORY_DEVICE nbytes w of
             (p, w1) \<Rightarrow> Return p w1)
        else if HYPRE_USING_UMPIRE_DEVICE cfg then
          (case native_alloc ''hypre_umpire_device_pooled_allocate'' hypre_MEMORY_DEVICE nbytes w of
             (p, w1) \<Rightarrow> Return p w1)
        else
          and_then
            (if HYPRE_USING_DEVICE_OPENMP cfg then
               (if HYPRE_DEVICE_OPENMP_ALLOC cfg then
                  (case native_alloc ''omp_target_alloc'' hypre_MEMORY_DEVICE nbytes w of
                     (p, w1) \<Rightarrow> Return p w1)
                else omp_mapped_alloc nbytes w)
             else Return 0 w)
            (\<lambda>p1 w1.
               case (if HYPRE_USING_CUDA cfg then
                       native_alloc
                         (if HYPRE_USING_DEVICE_POOL cfg then ''hypre_CachingMallocDevice''
                          else if HYPRE_USING_DEVICE_MALLOC_ASYNC cfg then ''cudaMallocAsync''
                          else ''cudaMalloc'')
                         hypre_MEMORY_DEVICE nbytes w1
                     else (p1, w1)) of
                 (p2, w2) \<Rightarrow>
               case (if HYPRE_USING_HIP cfg
                     then native_alloc ''hipMalloc'' hypre_MEMORY_DEVICE nbytes w2
                     else (p2, w2)) of
                 (p3, w3) \<Rightarrow>
               case (if HYPRE_USING_SYCL cfg
                     then native_alloc ''sycl::malloc_device'' hypre_MEMORY_DEVICE nbytes w3
                     else (p3, w3)) of
                 (p4, w4) \<Rightarrow> Return p4 w4))
       (\<lambda>p w5.
          if p \<noteq> 0 \<and> zeroinit then Return p (hypre_DeviceMemset cfg p 0 nbytes w5)
          else Return p w5)"

definition hypre_UnifiedMalloc :: "build \<Rightarrow> nat \<Rightarrow> bool \<Rightarrow> world \<Rightarrow> nat outcome" where
  "hypre_UnifiedMalloc cfg nbytes zeroinit w =
     and_then
       (if HYPRE_USING_UMPIRE_UM cfg then
          (case native_alloc ''hypre_umpire_um_pooled_allocate'' hypre_MEMORY_UNIFIED nbytes w of
             (p, w1) \<Rightarrow> Return p w1)
        else
          and_then
            (if HYPRE_USING_DEVICE_OPENMP cfg then
               (if HYPRE_DEVICE_OPENMP_ALLOC cfg then
                  (case native_alloc ''omp_target_alloc'' hypre_MEMORY_UNIFIED nbytes w of
                     (p, w1) \<Rightarrow> Return p w1)
                else omp_mapped_alloc nbytes w)
             else Return 0 w)
            (\<lambda>p1 w1.
               case (if HYPRE_USING_CUDA cfg then
                       native_alloc
                         (if HYPRE_USING_DEVICE_POOL cfg then ''hypre_CachingMallocManaged''
                          else ''cudaMallocManaged'')
                         hypre_MEMORY_UNIFIED nbytes w1
                     else (p1, w1)) of
                 (p2, w2) \<Rightarrow>
               case (if HYPRE_USING_HIP cfg
                     then native_alloc ''hipMallocManaged'' hypre_MEMORY_UNIFIED nbytes w2
                     else (p2, w2)) of
                 (p3, w3) \<Rightarrow>
               case (if HYPRE_USING_SYCL cfg
                     then native_alloc ''sycl::malloc_shared'' hypre_MEMORY_UNIFIED nbytes w3
                     else (p3, w3)) of
                 (p4, w4) \<Rightarrow> Return p4 w4))
       (\<lambda>p w5.
          and_then
            (if p \<noteq> 0 then hypre_UnifiedMemPrefetch cfg p nbytes hypre_MEMORY_DEVICE w5
             else Return () w5)
            (\<lambda>u w6.
               if p \<noteq> 0 \<and> zeroinit then Return p (hypre_UnifiedMemset cfg p 0 nbytes w6)
               else Return p w6))"

definition hypre_HostPinnedMalloc :: "build \<Rightarrow> nat \<Rightarrow> bool \<Rightarrow> world \<Rightarrow> nat outcome" where
  "hypre_HostPinnedMalloc cfg nbytes zeroinit w =
     (case (if HYPRE_USING_UMPIRE_PINNED cfg then
              native_alloc ''hypre_umpire_pinned_pooled_allocate'' hypre_MEMORY_HOST_PINNED nbytes w
            else
              (case (if HYPRE_USING_CUDA cfg
                     then native_alloc ''cudaMallocHost'' hypre_MEMORY_HOST_PINNED nbytes w
                     else (0, w)) of
                 (p1, w1) \<Rightarrow>
               case (if HYPRE_USING_HIP cfg
                     then native_alloc ''hipHostMalloc'' hypre_MEMORY_HOST_PINNED nbytes w1
                     else (p1, w1)) of
                 (p2, w2) \<Rightarrow>
               (if HYPRE_USING_SYCL cfg
                then native_alloc ''sycl::malloc_host'' hypre_MEMORY_HOST_PINNED nbytes w2
                else (p2, w2)))) of
        (p, w3) \<Rightarrow>
          if p \<noteq> 0 \<and> zeroinit then Return p (hypre_HostMemset p 0 nbytes w3)
          else Return p w3)"

text \<open>
  The \<^verbatim>\<open>switch\<close> of \<^verbatim>\<open>hypre_MAlloc_core\<close>: the allocator of the space selected by the
  location.  An unrecognized location is reported and leaves the pointer null.
\<close>

definition selected_allocator ::
  "build \<Rightarrow> hypre_MemoryLocation \<Rightarrow> nat \<Rightarrow> bool \<Rightarrow> world \<Rightarrow> nat outcome" where
  "selected_allocator cfg location nbytes zeroinit w =
     (case location of
        hypre_MEMORY_HOST \<Rightarrow> hypre_HostMalloc cfg nbytes zeroinit w
      | hypre_MEMORY_DEVICE \<Rightarrow> hypre_DeviceMalloc cfg nbytes zeroinit w
      | hypre_MEMORY_UNIFIED \<Rightarrow> hypre_UnifiedMalloc cfg nbytes zeroinit w
      | hypre_MEMORY_HOST_PINNED \<Rightarrow> hypre_HostPinnedMalloc cfg nbytes zeroinit w
      | hypre_MEMORY_UNDEFINED \<Rightarrow>
          and_then (hypre_WrongMemoryLocation cfg w) (\<lambda>u. Return 0))"

definition hypre_MAlloc_core ::
  "build \<Rightarrow> nat \<Rightarrow> bool \<Rightarrow> hypre_MemoryLocation \<Rightarrow> world \<Rightarrow> nat outcome" where
  "hypre_MAlloc_core cfg nbytes zeroinit location w =
     (if nbytes = 0 then Return 0 w
      else
        and_then (selected_allocator cfg location nbytes zeroinit w)
          (\<lambda>p w1.
             if p = 0 then
               and_then (hypre_OutOfMemory cfg nbytes w1) (\<lambda>u w2. hypre_MPI_Abort w2)
             else Return p w1))"

subsection \<open>Free\<close>

definition hypre_HostFree :: "build \<Rightarrow> nat \<Rightarrow> world \<Rightarrow> world" where
  "hypre_HostFree cfg p w =
     (if HYPRE_USING_UMPIRE_HOST cfg then native_free ''hypre_umpire_host_pooled_free'' p w
      else native_free ''free'' p w)"

definition hypre_DeviceFree :: "build \<Rightarrow> nat \<Rightarrow> world \<Rightarrow> world" where
  "hypre_DeviceFree cfg p w =
     (if user_device_mfree w then native_free ''user device mfree'' p w
      else if HYPRE_USING_UMPIRE_DEVICE cfg
      then native_free ''hypre_umpire_device_pooled_free'' p w
      else
        (let w1 = when_defined (HYPRE_USING_DEVICE_OPENMP cfg)
                    (if HYPRE_DEVICE_OPENMP_ALLOC cfg then native_free ''omp_target_free'' p
                     else HYPRE_OMPOffload ''exit'' ''delete'' p (size_header w p)) w;
             w2 = when_defined (HYPRE_USING_CUDA cfg)
                    (native_free
                       (if HYPRE_USING_DEVICE_POOL cfg then ''hypre_CachingFreeDevice''
                        else if HYPRE_USING_DEVICE_MALLOC_ASYNC cfg then ''cudaFreeAsync''
                        else ''cudaFree'') p) w1;
             w3 = when_defined (HYPRE_USING_HIP cfg) (native_free ''hipFree'' p) w2
         in when_defined (HYPRE_USING_SYCL cfg) (native_free ''sycl::free'' p) w3))"

definition hypre_UnifiedFree :: "build \<Rightarrow> nat \<Rightarrow> world \<Rightarrow> world" where
  "hypre_UnifiedFree cfg p w =
     (if HYPRE_USING_UMPIRE_UM cfg then native_free ''hypre_umpire_um_pooled_free'' p w
      else if HYPRE_USING_DEVICE_OPENMP cfg \<and> HYPRE_DEVICE_OPENMP_ALLOC cfg
      then native_free ''omp_target_free'' p w
      else if HYPRE_USING_DEVICE_OPENMP cfg \<and> \<not> HYPRE_DEVICE_OPENMP_ALLOC cfg
      then HYPRE_OMPOffload ''exit'' ''delete'' p (size_header w p) w
      else if HYPRE_USING_CUDA cfg \<and> HYPRE_USING_DEVICE_POOL cfg
      then native_free ''hypre_CachingFreeManaged'' p w
      else if HYPRE_USING_CUDA cfg \<and> \<not> HYPRE_USING_DEVICE_POOL cfg
      then native_free ''cudaFree'' p w
      else if HYPRE_USING_HIP cfg then native_free ''hipFree'' p w
      else if HYPRE_USING_SYCL cfg then native_free ''sycl::free'' p w
      else w)"

definition hypre_HostPinnedFree :: "build \<Rightarrow> nat \<Rightarrow> world \<Rightarrow> world" where
  "hypre_HostPinnedFree cfg p w =
     (if HYPRE_USING_UMPIRE_PINNED cfg then native_free ''hypre_umpire_pinned_pooled_free'' p w
      else if HYPRE_USING_CUDA cfg then native_free ''cudaFreeHost'' p w
      else if HYPRE_USING_HIP cfg then native_free ''hipHostFree'' p w
      else if HYPRE_USING_SYCL cfg then native_free ''sycl::free'' p w
      else w)"

definition hypre_Free_core ::
  "build \<Rightarrow> nat \<Rightarrow> hypre_MemoryLocation \<Rightarrow> world \<Rightarrow> unit outcome" where
  "hypre_Free_core cfg p location w =
     (if p = 0 then Return () w
      else
        and_then (hypre_CheckMemoryLocation cfg p location w)
          (\<lambda>u w1.
             case location of
               hypre_MEMORY_HOST \<Rightarrow> Return () (hypre_HostFree cfg p w1)
             | hypre_MEMORY_DEVICE \<Rightarrow> Return () (hypre_DeviceFree cfg p w1)
             | hypre_MEMORY_UNIFIED \<Rightarrow> Return () (hypre_UnifiedFree cfg p w1)
             | hypre_MEMORY_HOST_PINNED \<Rightarrow> Return () (hypre_HostPinnedFree cfg p w1)
             | hypre_MEMORY_UNDEFINED \<Rightarrow> hypre_WrongMemoryLocation cfg w1))"

subsection \<open>Memcpy\<close>

text \<open>
  After its guards \<^verbatim>\<open>hypre_Memcpy_core\<close> is a chain of \<^verbatim>\<open>if (...) { ...; return; }\<close>
  blocks over the two locations, closed by \<^verbatim>\<open>hypre_WrongMemoryLocation()\<close>.  The chain is
  split in two: \<open>Memcpy_dispatch\<close> evaluates the conditions in the order of the file and
  names the block entered (by the comment that heads it), \<open>Memcpy_transfer\<close> is the body
  of the block.
\<close>

datatype copy_case =
    Host_from_Host
  | UVM_Device
  | UVM_from_Host
  | Host_from_UVM
  | Device_from_Host
  | Host_from_Device
  | Device_from_Device
  | Unrecognized

definition Memcpy_dispatch :: "hypre_MemoryLocation \<Rightarrow> hypre_MemoryLocation \<Rightarrow> copy_case" where
  "Memcpy_dispatch loc_dst loc_src =
     (if loc_dst \<noteq> hypre_MEMORY_DEVICE \<and> loc_dst \<noteq> hypre_MEMORY_UNIFIED \<and>
         loc_src \<noteq> hypre_MEMORY_DEVICE \<and> loc_src \<noteq> hypre_MEMORY_UNIFIED
      then Host_from_Host
      else if (loc_dst = hypre_MEMORY_UNIFIED \<and> loc_src = hypre_MEMORY_DEVICE) \<or>
              (loc_dst = hypre_MEMORY_DEVICE \<and> loc_src = hypre_MEMORY_UNIFIED) \<or>
              (loc_dst = hypre_MEMORY_UNIFIED \<and> loc_src = hypre_MEMORY_UNIFIED)
      then UVM_Device
      else if loc_dst = hypre_MEMORY_UNIFIED then UVM_from_Host
      else if loc_src = hypre_MEMORY_UNIFIED then Host_from_UVM
      else if loc_dst = hypre_MEMORY_DEVICE \<and>
              (loc_src = hypre_MEMORY_HOST \<or> loc_src = hypre_MEMORY_HOST_PINNED)
      then Device_from_Host
      else if (loc_dst = hypre_MEMORY_HOST \<or> loc_dst = hypre_MEMORY_HOST_PINNED) \<and>
              loc_src = hypre_MEMORY_DEVICE
      then Host_from_Device
      else if loc_dst = hypre_MEMORY_DEVICE \<and> loc_src = hypre_MEMORY_DEVICE
      then Device_from_Device
      else Unrecognized)"

text \<open>
  The kind of transfer a block performs: a plain \<^verbatim>\<open>memcpy\<close> between host buffers, or
  the direction it passes to the vendor's copy (\<^verbatim>\<open>cudaMemcpyDeviceToDevice\<close>,
  \<^verbatim>\<open>cudaMemcpyHostToDevice\<close>, \<^verbatim>\<open>cudaMemcpyDeviceToHost\<close>).
\<close>

datatype transfer = Local_copy | Device_to_device | Host_to_device | Device_to_host

fun transfer_of :: "copy_case \<Rightarrow> transfer option" where
  "transfer_of Host_from_Host = Some Local_copy"
| "transfer_of UVM_Device = Some Device_to_device"
| "transfer_of UVM_from_Host = Some Host_to_device"
| "transfer_of Host_from_UVM = Some Device_to_host"
| "transfer_of Device_from_Host = Some Host_to_device"
| "transfer_of Host_from_Device = Some Device_to_host"
| "transfer_of Device_from_Device = Some Device_to_device"
| "transfer_of Unrecognized = None"

fun direction :: "transfer \<Rightarrow> string" where
  "direction Local_copy = ''Default''"
| "direction Device_to_device = ''DeviceToDevice''"
| "direction Host_to_device = ''HostToDevice''"
| "direction Device_to_host = ''DeviceToHost''"

text \<open>
  The vendor calls shared by the six blocks that leave the host: CUDA, HIP (asynchronous
  for device-to-device, as the comment in the file explains) and SYCL, each under its own
  \<^verbatim>\<open>#if\<close>.
\<close>

definition vendor_copies :: "build \<Rightarrow> transfer \<Rightarrow> nat \<Rightarrow> nat \<Rightarrow> nat \<Rightarrow> world \<Rightarrow> world" where
  "vendor_copies cfg t dst src nbytes w =
     (let w1 = when_defined (HYPRE_USING_CUDA cfg)
                 (native_copy (''cudaMemcpy '' @ direction t) dst src nbytes) w;
          w2 = when_defined (HYPRE_USING_HIP cfg)
                 (native_copy
                    ((if t = Device_to_device then ''hipMemcpyAsync '' else ''hipMemcpy '')
                       @ direction t) dst src nbytes) w1
      in when_defined (HYPRE_USING_SYCL cfg)
           (native_copy ''sycl::queue::memcpy'' dst src nbytes) w2)"

definition Memcpy_transfer ::
  "build \<Rightarrow> copy_case \<Rightarrow> nat \<Rightarrow> nat \<Rightarrow> nat \<Rightarrow> world \<Rightarrow> unit outcome" where
  "Memcpy_transfer cfg c dst src nbytes w =
     (case c of
        Host_from_Host \<Rightarrow> Return () (native_copy ''memcpy'' dst src nbytes w)
      | UVM_Device \<Rightarrow>
          Return ()
            (vendor_copies cfg Device_to_device dst src nbytes
               (when_defined (HYPRE_USING_DEVICE_OPENMP cfg)
                  (native_copy ''omp_target_memcpy device device'' dst src nbytes) w))
      | UVM_from_Host \<Rightarrow>
          Return ()
            (vendor_copies cfg Host_to_device dst src nbytes
               (when_defined (HYPRE_USING_DEVICE_OPENMP cfg)
                  (native_copy ''omp_target_memcpy device host'' dst src nbytes) w))
      | Host_from_UVM \<Rightarrow>
          Return ()
            (vendor_copies cfg Device_to_host dst src nbytes
               (when_defined (HYPRE_USING_DEVICE_OPENMP cfg)
                  (native_copy ''omp_target_memcpy host device'' dst src nbytes) w))
      | Device_from_Host \<Rightarrow>
          Return ()
            (vendor_copies cfg Host_to_device dst src nbytes
               (when_defined (HYPRE_USING_DEVICE_OPENMP cfg)
                  (if HYPRE_DEVICE_OPENMP_ALLOC cfg
                   then native_copy ''omp_target_memcpy device host'' dst src nbytes
                   else (\<lambda>w0. HYPRE_OMPOffload ''update'' ''to'' dst nbytes
                                 (native_copy ''memcpy'' dst src nbytes w0))) w))
      | Host_from_Device \<Rightarrow>
          Return ()
            (vendor_copies cfg Device_to_host dst src nbytes
               (when_defined (HYPRE_USING_DEVICE_OPENMP cfg)
                  (if HYPRE_DEVICE_OPENMP_ALLOC cfg
                   then native_copy ''omp_target_memcpy host device'' dst src nbytes
                   else (\<lambda>w0. native_copy ''memcpy'' dst src nbytes
                                 (HYPRE_OMPOffload ''update'' ''from'' src nbytes w0))) w))
      | Device_from_Device \<Rightarrow>
          Return ()
            (vendor_copies cfg Device_to_device dst src nbytes
               (when_defined (HYPRE_USING_DEVICE_OPENMP cfg)
                  (if HYPRE_DEVICE_OPENMP_ALLOC cfg
                   then native_copy ''omp_target_memcpy device device'' dst src nbytes
                   else (\<lambda>w0. HYPRE_OMPOffload ''update'' ''to'' dst nbytes
                                 (native_copy ''memcpy'' dst src nbytes
                                    (HYPRE_OMPOffload ''update'' ''from'' src nbytes w0)))) w))
      | Unrecognized \<Rightarrow> hypre_WrongMemoryLocation cfg w)"

definition hypre_Memcpy_core ::
  "build \<Rightarrow> nat \<Rightarrow> nat \<Rightarrow> nat \<Rightarrow> hypre_MemoryLocation \<Rightarrow> hypre_MemoryLocation \<Rightarrow> world
     \<Rightarrow> unit outcome" where
  "hypre_Memcpy_core cfg dst src nbytes loc_dst loc_src w =
     (if nbytes = 0 then Return () w
      else if dst = 0 \<or> src = 0 then
        (if nbytes \<noteq> 0 then
           hypre_assert cfg False
             (hypre_printf (''hypre_Memcpy warning: copy %ld bytes from %p to %p !'' @ newline)
                [nbytes, src, dst] w)
         else Return () w)
      else if dst = src then Return () w
      else
        and_then
          (if 0 < nbytes then
             and_then (hypre_CheckMemoryLocation cfg dst loc_dst w)
               (\<lambda>u w1. hypre_CheckMemoryLocation cfg src loc_src w1)
           else Return () w)
          (\<lambda>u w2. Memcpy_transfer cfg (Memcpy_dispatch loc_dst loc_src) dst src nbytes w2))"

subsection \<open>Conceptual memory location interface\<close>

definition hypre_MAlloc :: "build \<Rightarrow> nat \<Rightarrow> HYPRE_MemoryLocation \<Rightarrow> world \<Rightarrow> nat outcome" where
  "hypre_MAlloc cfg nbytes location w =
     hypre_MAlloc_core cfg nbytes False (hypre_GetActualMemLocation cfg location) w"

definition hypre_CAlloc ::
  "build \<Rightarrow> nat \<Rightarrow> nat \<Rightarrow> HYPRE_MemoryLocation \<Rightarrow> world \<Rightarrow> nat outcome" where
  "hypre_CAlloc cfg cnt elt_size location w =
     hypre_MAlloc_core cfg ((cnt * elt_size) mod 2 ^ (8 * sizeof_size_t)) True
       (hypre_GetActualMemLocation cfg location) w"

definition hypre_Free :: "build \<Rightarrow> nat \<Rightarrow> HYPRE_MemoryLocation \<Rightarrow> world \<Rightarrow> unit outcome" where
  "hypre_Free cfg p location w =
     hypre_Free_core cfg p (hypre_GetActualMemLocation cfg location) w"

definition hypre_Memcpy ::
  "build \<Rightarrow> nat \<Rightarrow> nat \<Rightarrow> nat \<Rightarrow> HYPRE_MemoryLocation \<Rightarrow> HYPRE_MemoryLocation \<Rightarrow> world
     \<Rightarrow> unit outcome" where
  "hypre_Memcpy cfg dst src nbytes loc_dst loc_src w =
     hypre_Memcpy_core cfg dst src nbytes (hypre_GetActualMemLocation cfg loc_dst)
       (hypre_GetActualMemLocation cfg loc_src) w"

definition hypre_ReAlloc ::
  "build \<Rightarrow> nat \<Rightarrow> nat \<Rightarrow> HYPRE_MemoryLocation \<Rightarrow> world \<Rightarrow> nat outcome" where
  "hypre_ReAlloc cfg p nbytes location w =
     (if nbytes = 0 then and_then (hypre_Free cfg p location w) (\<lambda>u. Return 0)
      else if p = 0 then hypre_MAlloc cfg nbytes location w
      else if hypre_GetActualMemLocation cfg location \<noteq> hypre_MEMORY_HOST then
        and_then
          (hypre_assert cfg False
             (hypre_printf
                (''hypre_TReAlloc only works with HYPRE_MEMORY_HOST; Use hypre_TReAlloc_v2 instead!''
                   @ newline) [] w))
          (\<lambda>u w1. hypre_MPI_Abort w1)
      else
        (case native_realloc
                (if HYPRE_USING_UMPIRE_HOST cfg then ''hypre_umpire_host_pooled_realloc''
                 else ''realloc'') p nbytes w of
           (q, w1) \<Rightarrow>
             and_then (if q = 0 then hypre_OutOfMemory cfg nbytes w1 else Return () w1)
               (\<lambda>u. Return q)))"

definition hypre_ReAlloc_v2 ::
  "build \<Rightarrow> nat \<Rightarrow> nat \<Rightarrow> nat \<Rightarrow> HYPRE_MemoryLocation \<Rightarrow> world \<Rightarrow> nat outcome" where
  "hypre_ReAlloc_v2 cfg p old_size new_size location w =
     (if new_size = 0 then and_then (hypre_Free cfg p location w) (\<lambda>u. Return 0)
      else if p = 0 then hypre_MAlloc cfg new_size location w
      else if old_size = new_size then Return p w
      else
        and_then (hypre_MAlloc cfg new_size location w)
          (\<lambda>new_ptr w1.
             let smaller_size = (if new_size > old_size then old_size else new_size) in
             and_then (hypre_Memcpy cfg new_ptr p smaller_size location location w1)
               (\<lambda>u w2.
                  and_then (hypre_Free cfg p location w2)
                    (\<lambda>u w3.
                       and_then
                         (if new_ptr = 0 then hypre_OutOfMemory cfg new_size w3
                          else Return () w3)
                         (\<lambda>u. Return new_ptr)))))"

subsection \<open>Sample builds and states\<close>

text \<open>
  Three builds, used to run the definitions on concrete inputs.  \<open>host_build\<close> has no
  accelerator and compiles \<^verbatim>\<open>hypre_assert\<close> out; \<open>cuda_build\<close> is a CUDA build of the
  same kind; \<open>cuda_debug_build\<close> is a CUDA build with \<^verbatim>\<open>HYPRE_DEBUG\<close> in which a failed
  \<^verbatim>\<open>hypre_assert\<close> terminates the process.
\<close>

definition host_build :: build where
  "host_build =
     \<lparr>HYPRE_DEBUG = False, HYPRE_USING_GPU = False, HYPRE_USING_DEVICE_OPENMP = False,
      HYPRE_DEVICE_OPENMP_ALLOC = False, HYPRE_USING_CUDA = False,
      HYPRE_USING_DEVICE_POOL = False, HYPRE_USING_DEVICE_MALLOC_ASYNC = False,
      HYPRE_USING_HIP = False, HYPRE_USING_SYCL = False, HYPRE_USING_UMPIRE_HOST = False,
      HYPRE_USING_UMPIRE_DEVICE = False, HYPRE_USING_UMPIRE_UM = False,
      HYPRE_USING_UMPIRE_PINNED = False, hypre_assert_aborts = False,
      hypre_GetActualMemLocation =
        (\<lambda>l. case l of HYPRE_MEMORY_UNDEFINED \<Rightarrow> hypre_MEMORY_UNDEFINED
                      | HYPRE_MEMORY_HOST \<Rightarrow> hypre_MEMORY_HOST
                      | HYPRE_MEMORY_DEVICE \<Rightarrow> hypre_MEMORY_HOST)\<rparr>"

definition cuda_build :: build where
  "cuda_build =
     \<lparr>HYPRE_DEBUG = False, HYPRE_USING_GPU = True, HYPRE_USING_DEVICE_OPENMP = False,
      HYPRE_DEVICE_OPENMP_ALLOC = False, HYPRE_USING_CUDA = True,
      HYPRE_USING_DEVICE_POOL = False, HYPRE_USING_DEVICE_MALLOC_ASYNC = False,
      HYPRE_USING_HIP = False, HYPRE_USING_SYCL = False, HYPRE_USING_UMPIRE_HOST = False,
      HYPRE_USING_UMPIRE_DEVICE = False, HYPRE_USING_UMPIRE_UM = False,
      HYPRE_USING_UMPIRE_PINNED = False, hypre_assert_aborts = False,
      hypre_GetActualMemLocation =
        (\<lambda>l. case l of HYPRE_MEMORY_UNDEFINED \<Rightarrow> hypre_MEMORY_UNDEFINED
                      | HYPRE_MEMORY_HOST \<Rightarrow> hypre_MEMORY_HOST
                      | HYPRE_MEMORY_DEVICE \<Rightarrow> hypre_MEMORY_DEVICE)\<rparr>"

definition cuda_debug_build :: build where
  "cuda_debug_build = cuda_build\<lparr>HYPRE_DEBUG := True, hypre_assert_aborts := True\<rparr>"

text \<open>
  A state with nothing allocated, all bytes zero, every pointer classified as a host
  pointer and an empty trace; the allocators will yield the given addresses.
\<close>

definition boot :: "HYPRE_ExecutionPolicy \<Rightarrow> nat list \<Rightarrow> world" where
  "boot policy addresses =
     \<lparr>memory = (\<lambda>a. 0), live = Map.empty, size_header = (\<lambda>a. 0),
      pointer_attribute = (\<lambda>a. hypre_MEMORY_HOST), alloc_results = addresses,
      default_exec_policy = policy, user_device_malloc = False, user_device_mfree = False,
      trace = []\<rparr>"

definition sample_heap :: world where
  "sample_heap =
     (boot HYPRE_EXEC_DEVICE [8192])
       \<lparr>memory := (\<lambda>a. if a = 4096 then 0xAB else if a = 4097 then 0xCD else 0),
        live := [4096 \<mapsto> 2]\<rparr>"

subsection \<open>Observations on a run\<close>

text \<open>
  What a caller or an observer of the process can tell from an outcome: the value
  returned (if any), the events added to the trace, and whether an event is a call of a
  backend primitive rather than a diagnostic.
\<close>

fun result :: "'a outcome \<Rightarrow> 'a option" where
  "result (Return x w) = Some x"
| "result (Abort e w) = None"

definition new_events :: "world \<Rightarrow> world \<Rightarrow> event list" where
  "new_events w w1 = drop (length (trace w)) (trace w1)"

fun is_call :: "event \<Rightarrow> bool" where
  "is_call (Call name args) = True"
| "is_call (Printf format args) = False"
| "is_call (Error_w_msg code format args) = False"
| "is_call Fflush_stdout = False"

definition only_calls :: "world \<Rightarrow> world \<Rightarrow> bool" where
  "only_calls w w1 =
     (take (length (trace w)) (trace w1) = trace w \<and> list_all is_call (new_events w w1))"

definition wrong_location_report :: event where
  "wrong_location_report =
     Error_w_msg HYPRE_ERROR_MEMORY (''Unrecognized hypre_MemoryLocation'' @ newline) []"

definition out_of_memory_report :: "nat \<Rightarrow> event" where
  "out_of_memory_report nbytes =
     Error_w_msg HYPRE_ERROR_MEMORY
       (''Out of memory trying to allocate %zu bytes'' @ newline) [nbytes]"

definition memcpy_warning :: "nat \<Rightarrow> nat \<Rightarrow> nat \<Rightarrow> event" where
  "memcpy_warning nbytes src dst =
     Printf (''hypre_Memcpy warning: copy %ld bytes from %p to %p !'' @ newline)
       [nbytes, src, dst]"

section \<open>Properties\<close>

subsection \<open>Sequencing and the trace\<close>

lemma and_then_Return [simp]: "and_then (Return x w) f = f x w"
  by (simp add: and_then_def)

lemma and_then_Abort [simp]: "and_then (Abort e w) f = Abort e w"
  by (simp add: and_then_def)

lemma trace_emit [simp]: "trace (emit e w) = trace w @ [e]"
  by (simp add: emit_def)

lemma memory_emit [simp]: "memory (emit e w) = memory w"
  by (simp add: emit_def)

lemmas sample_defs = host_build_def cuda_build_def cuda_debug_build_def boot_def sample_heap_def

lemma only_calls_refl: "only_calls w w"
  by (simp add: only_calls_def new_events_def)

lemma only_calls_append:
  "only_calls w w1 = (\<exists>evs. trace w1 = trace w @ evs \<and> list_all is_call evs)"
proof
  assume "only_calls w w1"
  then have "trace w1 = trace w @ new_events w w1 \<and> list_all is_call (new_events w w1)"
    unfolding only_calls_def new_events_def
    by (metis append_take_drop_id)
  then show "\<exists>evs. trace w1 = trace w @ evs \<and> list_all is_call evs"
    by blast
next
  assume "\<exists>evs. trace w1 = trace w @ evs \<and> list_all is_call evs"
  then show "only_calls w w1"
    by (auto simp add: only_calls_def new_events_def)
qed

lemma only_calls_trans: "only_calls w w1 \<Longrightarrow> only_calls w1 w2 \<Longrightarrow> only_calls w w2"
  by (auto simp add: only_calls_append)

lemma only_calls_native_copy: "only_calls w (native_copy name dst src nbytes w)"
  by (simp add: only_calls_append native_copy_def emit_def)

lemma only_calls_when_defined:
  "(\<And>w0. only_calls w0 (f w0)) \<Longrightarrow> only_calls w (when_defined flag f w)"
  by (simp add: when_defined_def only_calls_refl)

lemma only_calls_vendor_copies: "only_calls w (vendor_copies cfg t dst src nbytes w)"
  unfolding vendor_copies_def Let_def
  by (intro only_calls_trans [OF only_calls_when_defined
          only_calls_trans [OF only_calls_when_defined only_calls_when_defined]]
        only_calls_native_copy)

lemma only_calls_openmp_block:
  "only_calls w (HYPRE_OMPOffload t1 t2 p n (native_copy name dst src nbytes w))"
  "only_calls w (native_copy name dst src nbytes (HYPRE_OMPOffload t1 t2 p n w))"
  "only_calls w (HYPRE_OMPOffload t1 t2 p n (native_copy name dst src nbytes
      (HYPRE_OMPOffload t3 t4 q m w)))"
  by (simp_all add: only_calls_append native_copy_def HYPRE_OMPOffload_def emit_def)

lemma only_calls_no_report:
  assumes "only_calls w w1"
  shows "wrong_location_report \<notin> set (new_events w w1)"
proof -
  have "\<not> is_call wrong_location_report"
    by (simp add: wrong_location_report_def)
  with assms show ?thesis
    by (auto simp add: only_calls_def list_all_iff)
qed

subsection \<open>Allocation never hands out a null block\<close>

text \<open>
  After \<^verbatim>\<open>hypre_OutOfMemory\<close> the allocation router calls \<^verbatim>\<open>hypre_MPI_Abort\<close>: whatever
  the build does with a failed \<^verbatim>\<open>hypre_assert\<close>, control does not come back.
\<close>

lemma OutOfMemory_then_abort:
  "and_then (hypre_OutOfMemory cfg n w) (\<lambda>u w2. hypre_MPI_Abort w2) \<noteq> Return x w'"
  by (simp add: hypre_OutOfMemory_def hypre_assert_def hypre_MPI_Abort_def)

lemma MAlloc_core_never_null:
  "nbytes \<noteq> 0 \<Longrightarrow> hypre_MAlloc_core cfg nbytes zeroinit location w \<noteq> Return 0 w'"
  by (cases "selected_allocator cfg location nbytes zeroinit w")
     (auto simp add: hypre_MAlloc_core_def OutOfMemory_then_abort)

lemma MAlloc_core_Return:
  assumes "hypre_MAlloc_core cfg nbytes zeroinit location w = Return p w'" and "nbytes \<noteq> 0"
  shows "p \<noteq> 0"
proof
  assume "p = 0"
  with assms(1) have "hypre_MAlloc_core cfg nbytes zeroinit location w = Return 0 w'"
    by simp
  then show False
    by (simp add: MAlloc_core_never_null [OF assms(2)])
qed

text \<open>
  When the allocator of the selected space yields null for a non-zero size, the
  out-of-memory report for that size is recorded and the process is terminated.
\<close>

lemma MAlloc_core_out_of_memory:
  assumes "nbytes \<noteq> 0"
    and "selected_allocator cfg location nbytes zeroinit w = Return 0 w1"
  shows "\<not> returns (hypre_MAlloc_core cfg nbytes zeroinit location w) \<and>
         out_of_memory_report nbytes \<in>
           set (new_events w1 (final (hypre_MAlloc_core cfg nbytes zeroinit location w)))"
  using assms
  by (simp add: hypre_MAlloc_core_def hypre_OutOfMemory_def hypre_assert_def
      hypre_MPI_Abort_def hypre_error_w_msg_def out_of_memory_report_def new_events_def
      emit_def)

text \<open>
  \<^verbatim>\<open>hypre_ReAlloc\<close> on a host block, when the native \<^verbatim>\<open>realloc\<close> yields null: the report
  is recorded, but no \<^verbatim>\<open>hypre_MPI_Abort\<close> follows \<^verbatim>\<open>hypre_OutOfMemory\<close> here, so the
  call returns null unless the failed \<^verbatim>\<open>hypre_assert(0)\<close> stops the process.
\<close>

lemma native_realloc_fails:
  "alloc_results w = [] \<or> hd (alloc_results w) = 0 \<Longrightarrow>
   native_realloc name p nbytes w =
     (0, emit (Call name [p, nbytes]) (w\<lparr>alloc_results := tl (alloc_results w)\<rparr>))"
  by (cases "alloc_results w") (auto simp add: native_realloc_def Let_def)

lemma ReAlloc_out_of_memory:
  assumes "p \<noteq> 0" and "nbytes \<noteq> 0"
    and "hypre_GetActualMemLocation cfg location = hypre_MEMORY_HOST"
    and "alloc_results w = [] \<or> hd (alloc_results w) = 0"
  shows "result (hypre_ReAlloc cfg p nbytes location w) =
           (if hypre_assert_aborts cfg then None else Some 0) \<and>
         out_of_memory_report nbytes \<in>
           set (trace (final (hypre_ReAlloc cfg p nbytes location w)))"
  using assms(1-3)
  by (simp add: hypre_ReAlloc_def native_realloc_fails [OF assms(4)] hypre_OutOfMemory_def
      hypre_assert_def hypre_error_w_msg_def out_of_memory_report_def)

subsection \<open>The copy dispatch\<close>

lemma Memcpy_dispatch_total:
  "loc_dst \<noteq> hypre_MEMORY_UNDEFINED \<Longrightarrow> loc_src \<noteq> hypre_MEMORY_UNDEFINED \<Longrightarrow>
   Memcpy_dispatch loc_dst loc_src \<noteq> Unrecognized"
  by (cases loc_dst; cases loc_src; simp add: Memcpy_dispatch_def)

lemma Memcpy_transfer_only_calls:
  assumes "c \<noteq> Unrecognized"
  shows "returns (Memcpy_transfer cfg c dst src nbytes w) \<and>
         only_calls w (final (Memcpy_transfer cfg c dst src nbytes w))"
proof (cases c)
  case Host_from_Host
  then show ?thesis
    by (simp add: Memcpy_transfer_def only_calls_native_copy)
next
  case UVM_Device
  then show ?thesis
    by (auto simp add: Memcpy_transfer_def
        intro!: only_calls_trans [OF only_calls_when_defined only_calls_vendor_copies]
          only_calls_native_copy)
next
  case UVM_from_Host
  then show ?thesis
    by (auto simp add: Memcpy_transfer_def
        intro!: only_calls_trans [OF only_calls_when_defined only_calls_vendor_copies]
          only_calls_native_copy)
next
  case Host_from_UVM
  then show ?thesis
    by (auto simp add: Memcpy_transfer_def
        intro!: only_calls_trans [OF only_calls_when_defined only_calls_vendor_copies]
          only_calls_native_copy)
next
  case Device_from_Host
  then show ?thesis
    by (auto simp add: Memcpy_transfer_def
        intro!: only_calls_trans [OF only_calls_when_defined only_calls_vendor_copies]
          only_calls_native_copy only_calls_openmp_block)
next
  case Host_from_Device
  then show ?thesis
    by (auto simp add: Memcpy_transfer_def
        intro!: only_calls_trans [OF only_calls_when_defined only_calls_vendor_copies]
          only_calls_native_copy only_calls_openmp_block)
next
  case Device_from_Device
  then show ?thesis
    by (auto simp add: Memcpy_transfer_def
        intro!: only_calls_trans [OF only_calls_when_defined only_calls_vendor_copies]
          only_calls_native_copy only_calls_openmp_block)
next
  case Unrecognized
  with assms show ?thesis by simp
qed

lemma CheckMemoryLocation_returns:
  "returns (hypre_CheckMemoryLocation cfg p location w) =
     (\<not> (HYPRE_DEBUG cfg \<and> HYPRE_USING_GPU cfg) \<or> p = 0 \<or>
      location = hypre_GetPointerLocation cfg p w)"
  by (simp add: hypre_CheckMemoryLocation_def)

section \<open>The claims\<close>

text \<open>
  C1.  The claim: the binary execution-policy resolver resolves (Host, Device) and
  (Device, Host) to the fatal Undefined condition, HostPinned counting as Host.

  The code does not.  The block headed \<^verbatim>\<open>/* no policy for these combinations */\<close> assigns
  \<^verbatim>\<open>HYPRE_EXEC_UNDEFINED\<close>, but the later, unconditional tests "either operand is Host" and
  "either operand is Device" overwrite it: for every build and every state the call
  returns \<^verbatim>\<open>HYPRE_EXEC_DEVICE\<close> for these pairs, and the closing
  \<^verbatim>\<open>hypre_assert(exec != HYPRE_EXEC_UNDEFINED)\<close> holds.
\<close>

theorem GetExecPolicy2_core_host_device_is_device:
  "hypre_GetExecPolicy2_core cfg hypre_MEMORY_HOST hypre_MEMORY_DEVICE w =
     Return HYPRE_EXEC_DEVICE w \<and>
   hypre_GetExecPolicy2_core cfg hypre_MEMORY_DEVICE hypre_MEMORY_HOST w =
     Return HYPRE_EXEC_DEVICE w \<and>
   hypre_GetExecPolicy2_core cfg hypre_MEMORY_HOST_PINNED hypre_MEMORY_DEVICE w =
     Return HYPRE_EXEC_DEVICE w \<and>
   hypre_GetExecPolicy2_core cfg hypre_MEMORY_DEVICE hypre_MEMORY_HOST_PINNED w =
     Return HYPRE_EXEC_DEVICE w"
  by (simp add: hypre_GetExecPolicy2_core_def hypre_assert_def)

text \<open>
  C2.  The claim: \<^verbatim>\<open>hypre_ReAlloc_v2\<close> with new size 0 frees the block and returns null;
  with a null pointer it is exactly an allocation without zero fill; otherwise it allocates
  a fresh block, copies \<open>min old_size new_size\<close> bytes, frees the old block and returns
  the new pointer.

  The last case is too wide: when the old and the new size are equal the code returns the
  pointer it was given and touches nothing.
\<close>

theorem ReAlloc_v2_equal_sizes_counterexample:
  "hypre_ReAlloc_v2 host_build 4096 2 2 HYPRE_MEMORY_HOST sample_heap =
     Return 4096 sample_heap \<and>
   alloc_results sample_heap = [8192] \<and> live sample_heap 4096 = Some 2"
  by (simp add: hypre_ReAlloc_v2_def sample_defs)

text \<open>
  C2, as amended.  With new size 0: free, then null.  With a null pointer: exactly
  \<^verbatim>\<open>hypre_MAlloc_core\<close> without zero fill at the resolved location.  With equal sizes:
  the pointer itself, the state untouched.  Otherwise: allocate at the new size, copy
  \<open>min old_size new_size\<close> bytes with the copy engine, free the old block, return the
  new pointer.  (The test of the new pointer against null that closes the C function can
  never fire: the allocation router does not return null for a non-zero size.)
\<close>

theorem ReAlloc_v2_cases:
  "hypre_ReAlloc_v2 cfg p old_size new_size location w =
     (if new_size = 0 then and_then (hypre_Free cfg p location w) (\<lambda>u. Return 0)
      else if p = 0
      then hypre_MAlloc_core cfg new_size False (hypre_GetActualMemLocation cfg location) w
      else if old_size = new_size then Return p w
      else
        and_then (hypre_MAlloc cfg new_size location w)
          (\<lambda>new_ptr w1.
             and_then (hypre_Memcpy cfg new_ptr p (min old_size new_size) location location w1)
               (\<lambda>u w2. and_then (hypre_Free cfg p location w2) (\<lambda>u. Return new_ptr))))"
proof -
  have smaller: "(if new_size > old_size then old_size else new_size) = min old_size new_size"
    by (simp add: min_def)
  show ?thesis
  proof (cases "new_size = 0 \<or> p = 0 \<or> old_size = new_size")
    case True
    then show ?thesis
      by (auto simp add: hypre_ReAlloc_v2_def hypre_MAlloc_def)
  next
    case False
    then have nz: "new_size \<noteq> 0" by simp
    show ?thesis
    proof (cases "hypre_MAlloc cfg new_size location w")
      case (Return q w1)
      then have "q \<noteq> 0"
        using nz by (auto simp add: hypre_MAlloc_def dest: MAlloc_core_Return)
      with Return False show ?thesis
        by (simp add: hypre_ReAlloc_v2_def smaller Let_def)
    next
      case (Abort e w1)
      with False show ?thesis
        by (simp add: hypre_ReAlloc_v2_def)
    qed
  qed
qed

text \<open>
  A run of the general case on the host: a block of 2 bytes at 4096 grows to 4 bytes; the
  allocator yields 8192.
\<close>

theorem ReAlloc_v2_cases_witness:
  "result (hypre_ReAlloc_v2 host_build 4096 2 4 HYPRE_MEMORY_HOST sample_heap) = Some 8192 \<and>
   new_events sample_heap
     (final (hypre_ReAlloc_v2 host_build 4096 2 4 HYPRE_MEMORY_HOST sample_heap)) =
     [Call ''malloc'' [4], Call ''memcpy'' [8192, 4096, 2], Call ''free'' [4096]] \<and>
   memory (final (hypre_ReAlloc_v2 host_build 4096 2 4 HYPRE_MEMORY_HOST sample_heap)) 8192
     = 0xAB \<and>
   memory (final (hypre_ReAlloc_v2 host_build 4096 2 4 HYPRE_MEMORY_HOST sample_heap)) 8193
     = 0xCD \<and>
   live (final (hypre_ReAlloc_v2 host_build 4096 2 4 HYPRE_MEMORY_HOST sample_heap)) 4096
     = None \<and>
   live (final (hypre_ReAlloc_v2 host_build 4096 2 4 HYPRE_MEMORY_HOST sample_heap)) 8192
     = Some 4"
  using ReAlloc_v2_cases [of host_build 4096 2 4 HYPRE_MEMORY_HOST sample_heap]
  by (simp add: sample_defs hypre_MAlloc_def hypre_MAlloc_core_def selected_allocator_def
      hypre_HostMalloc_def native_alloc_def hypre_Memcpy_def hypre_Memcpy_core_def
      hypre_CheckMemoryLocation_def Memcpy_dispatch_def Memcpy_transfer_def native_copy_def
      hypre_Free_def hypre_Free_core_def hypre_HostFree_def native_free_def emit_def
      copy_bytes_def new_events_def Let_def)

text \<open>
  C3.  The claim: a copy of non-zero size with a null source or destination logs a
  warning, copies nothing and returns normally.

  The branch prints the warning and then executes \<^verbatim>\<open>hypre_assert(0)\<close>.  In a build where
  a failed \<^verbatim>\<open>hypre_assert\<close> terminates the process the call does not return.
\<close>

theorem Memcpy_core_null_pointer_counterexample:
  "\<not> returns
      (hypre_Memcpy_core cuda_debug_build 0 4096 16 hypre_MEMORY_HOST hypre_MEMORY_HOST
         (boot HYPRE_EXEC_DEVICE []))"
  by (simp add: hypre_Memcpy_core_def hypre_assert_def cuda_debug_build_def cuda_build_def)

text \<open>
  C3, as amended.  For every pair of locations and every non-zero size, a copy with a null
  source or destination logs the warning (size, source, destination), modifies no memory,
  releases nothing and calls no primitive; it returns normally in a build where
  \<^verbatim>\<open>hypre_assert\<close> does not abort, and stops at the failed assertion otherwise.
\<close>

theorem Memcpy_core_null_pointer:
  assumes "nbytes \<noteq> 0" and "dst = 0 \<or> src = 0"
  shows "hypre_Memcpy_core cfg dst src nbytes loc_dst loc_src w =
           (if hypre_assert_aborts cfg
            then Abort Assertion_failed (emit (memcpy_warning nbytes src dst) w)
            else Return () (emit (memcpy_warning nbytes src dst) w)) \<and>
         memory (emit (memcpy_warning nbytes src dst) w) = memory w \<and>
         live (emit (memcpy_warning nbytes src dst) w) = live w \<and>
         new_events w (emit (memcpy_warning nbytes src dst) w) = [memcpy_warning nbytes src dst]"
  using assms
  by (auto simp add: hypre_Memcpy_core_def hypre_assert_def hypre_printf_def memcpy_warning_def
      new_events_def emit_def)

theorem Memcpy_core_null_pointer_witness:
  "hypre_Memcpy_core host_build 0 4096 2 hypre_MEMORY_HOST hypre_MEMORY_HOST sample_heap =
     Return () (emit (memcpy_warning 2 4096 0) sample_heap) \<and>
   hypre_Memcpy_core cuda_debug_build 8192 0 2 hypre_MEMORY_DEVICE hypre_MEMORY_HOST
     sample_heap = Abort Assertion_failed (emit (memcpy_warning 2 0 8192) sample_heap) \<and>
   memory (emit (memcpy_warning 2 4096 0) sample_heap) = memory sample_heap"
  using Memcpy_core_null_pointer
      [of 2 0 4096 host_build hypre_MEMORY_HOST hypre_MEMORY_HOST sample_heap]
    Memcpy_core_null_pointer
      [of 2 8192 0 cuda_debug_build hypre_MEMORY_DEVICE hypre_MEMORY_HOST sample_heap]
  by (simp add: sample_defs)

text \<open>
  C4.  The claim: when the selected allocator yields null for a non-zero size, the
  allocation reports out-of-memory with the size and terminates the process, never
  returning null; and the native-realloc path of \<^verbatim>\<open>hypre_ReAlloc\<close> treats a null result
  the same way.

  The first half holds in every build: a null result of the selected allocator is reported
  and fatal (\<open>MAlloc_core_out_of_memory\<close>), and no non-zero allocation returns null
  (\<open>MAlloc_core_never_null\<close>).  The second does not: after \<^verbatim>\<open>hypre_OutOfMemory\<close> the
  realloc path has no \<^verbatim>\<open>hypre_MPI_Abort\<close>, so where \<^verbatim>\<open>hypre_assert\<close> does not abort, null is
  returned to the caller (\<open>ReAlloc_out_of_memory\<close>).  Below, the same exhausted
  allocator under \<^verbatim>\<open>hypre_ReAlloc\<close> and under \<^verbatim>\<open>hypre_MAlloc\<close>.
\<close>

theorem ReAlloc_out_of_memory_returns_null:
  "result (hypre_ReAlloc host_build 4096 64 HYPRE_MEMORY_HOST
             (sample_heap\<lparr>alloc_results := []\<rparr>)) = Some 0 \<and>
   new_events sample_heap
     (final (hypre_ReAlloc host_build 4096 64 HYPRE_MEMORY_HOST
               (sample_heap\<lparr>alloc_results := []\<rparr>))) =
     [Call ''realloc'' [4096, 64], out_of_memory_report 64, Fflush_stdout] \<and>
   hypre_MAlloc host_build 64 HYPRE_MEMORY_HOST (sample_heap\<lparr>alloc_results := []\<rparr>) =
     Abort MPI_Aborted
       (sample_heap\<lparr>alloc_results := [],
          trace := [Call ''malloc'' [64], out_of_memory_report 64, Fflush_stdout,
                    Call ''hypre_MPI_Abort'' []]\<rparr>)"
  by (simp add: sample_defs hypre_ReAlloc_def native_realloc_def hypre_OutOfMemory_def
      hypre_assert_def hypre_error_w_msg_def out_of_memory_report_def emit_def new_events_def
      hypre_MAlloc_def hypre_MAlloc_core_def selected_allocator_def hypre_HostMalloc_def
      native_alloc_def hypre_MPI_Abort_def Let_def)

text \<open>
  C5.  The claim: for every pair of locations among Host, HostPinned, Device and Unified,
  with non-null distinct pointers and a non-zero size, the first-match dispatch of the copy
  engine selects exactly one transfer case and the closing "unrecognized location" branch
  is unreachable.

  Between the guards the claim lists and the dispatch stands one more:
  \<^verbatim>\<open>hypre_CheckMemoryLocation\<close> on both pointers.  In a build with \<^verbatim>\<open>HYPRE_DEBUG\<close> and
  \<^verbatim>\<open>HYPRE_USING_GPU\<close> a pointer that is not where the caller says stops the process
  there, and no transfer case is entered.  Below, a host pointer passed as a device
  destination.
\<close>

theorem Memcpy_core_location_check_counterexample:
  "hypre_Memcpy_core cuda_debug_build 8192 4096 2 hypre_MEMORY_DEVICE hypre_MEMORY_HOST
     sample_heap = Abort Location_check_failed sample_heap \<and>
   new_events sample_heap
     (final (hypre_Memcpy_core cuda_debug_build 8192 4096 2 hypre_MEMORY_DEVICE
        hypre_MEMORY_HOST sample_heap)) = []"
  by (simp add: sample_defs hypre_Memcpy_core_def hypre_CheckMemoryLocation_def
      hypre_GetPointerLocation_def new_events_def)

text \<open>
  C5, as amended.  For every pair of locations among Host, HostPinned, Device and Unified,
  with non-null distinct pointers and a non-zero size, the first-match dispatch selects
  exactly one transfer case (a local copy, or a device-to-device, host-to-device or
  device-to-host transfer).  When the pointer-location check passes for both pointers
  (it always does outside a debug accelerator build) the call is the block of that case
  and returns; when it does not, the process stops at the check with the state untouched.
  Either way only primitive calls are added to the trace and the "unrecognized location"
  report is never among them.
\<close>

theorem Memcpy_core_dispatch_exhaustive:
  assumes "loc_dst \<noteq> hypre_MEMORY_UNDEFINED" and "loc_src \<noteq> hypre_MEMORY_UNDEFINED"
    and "dst \<noteq> 0" and "src \<noteq> 0" and "dst \<noteq> src" and "nbytes \<noteq> 0"
  shows "(\<exists>!t. transfer_of (Memcpy_dispatch loc_dst loc_src) = Some t) \<and>
         (if returns (hypre_CheckMemoryLocation cfg dst loc_dst w) \<and>
             returns (hypre_CheckMemoryLocation cfg src loc_src w)
          then hypre_Memcpy_core cfg dst src nbytes loc_dst loc_src w =
                 Memcpy_transfer cfg (Memcpy_dispatch loc_dst loc_src) dst src nbytes w \<and>
               returns (hypre_Memcpy_core cfg dst src nbytes loc_dst loc_src w)
          else hypre_Memcpy_core cfg dst src nbytes loc_dst loc_src w =
                 Abort Location_check_failed w) \<and>
         only_calls w (final (hypre_Memcpy_core cfg dst src nbytes loc_dst loc_src w)) \<and>
         wrong_location_report \<notin>
           set (new_events w (final (hypre_Memcpy_core cfg dst src nbytes loc_dst loc_src w)))"
proof -
  let ?c = "Memcpy_dispatch loc_dst loc_src"
  let ?r = "hypre_Memcpy_core cfg dst src nbytes loc_dst loc_src w"
  let ?ok = "returns (hypre_CheckMemoryLocation cfg dst loc_dst w) \<and>
             returns (hypre_CheckMemoryLocation cfg src loc_src w)"
  have c: "?c \<noteq> Unrecognized"
    using assms(1,2) by (rule Memcpy_dispatch_total)
  then have one: "\<exists>!t. transfer_of ?c = Some t"
    by (cases ?c) simp_all
  have t: "returns (Memcpy_transfer cfg ?c dst src nbytes w)"
    "only_calls w (final (Memcpy_transfer cfg ?c dst src nbytes w))"
    using Memcpy_transfer_only_calls [OF c] by simp_all
  have r: "?r = (if ?ok then Memcpy_transfer cfg ?c dst src nbytes w
                 else Abort Location_check_failed w)"
    using assms(3-6)
    by (simp add: hypre_Memcpy_core_def hypre_CheckMemoryLocation_def)
  have oc: "only_calls w (final ?r)"
    using t(2) by (simp add: r only_calls_refl)
  have "if ?ok then ?r = Memcpy_transfer cfg ?c dst src nbytes w \<and> returns ?r
        else ?r = Abort Location_check_failed w"
    using t(1) by (simp add: r)
  with one oc only_calls_no_report [OF oc] show ?thesis
    by simp
qed

text \<open>
  Two runs: host to device in a CUDA build without the check, and host to host in the
  debug CUDA build, where the check runs and passes.
\<close>

theorem Memcpy_core_dispatch_exhaustive_witness:
  "transfer_of (Memcpy_dispatch hypre_MEMORY_DEVICE hypre_MEMORY_HOST) = Some Host_to_device \<and>
   returns (hypre_Memcpy_core cuda_build 8192 4096 2 hypre_MEMORY_DEVICE hypre_MEMORY_HOST
     sample_heap) \<and>
   new_events sample_heap
     (final (hypre_Memcpy_core cuda_build 8192 4096 2 hypre_MEMORY_DEVICE hypre_MEMORY_HOST
        sample_heap)) = [Call ''cudaMemcpy HostToDevice'' [8192, 4096, 2]] \<and>
   memory (final (hypre_Memcpy_core cuda_build 8192 4096 2 hypre_MEMORY_DEVICE hypre_MEMORY_HOST
     sample_heap)) 8193 = 0xCD \<and>
   returns (hypre_Memcpy_core cuda_debug_build 8192 4096 2 hypre_MEMORY_HOST hypre_MEMORY_HOST
     sample_heap) \<and>
   new_events sample_heap
     (final (hypre_Memcpy_core cuda_debug_build 8192 4096 2 hypre_MEMORY_HOST hypre_MEMORY_HOST
        sample_heap)) = [Call ''memcpy'' [8192, 4096, 2]]"
  using Memcpy_core_dispatch_exhaustive
      [of hypre_MEMORY_DEVICE hypre_MEMORY_HOST 8192 4096 2 cuda_build sample_heap]
    Memcpy_core_dispatch_exhaustive
      [of hypre_MEMORY_HOST hypre_MEMORY_HOST 8192 4096 2 cuda_debug_build sample_heap]
  by (simp add: sample_defs hypre_Memcpy_core_def hypre_CheckMemoryLocation_def
      hypre_GetPointerLocation_def Memcpy_dispatch_def Memcpy_transfer_def vendor_copies_def
      when_defined_def native_copy_def emit_def copy_bytes_def new_events_def)

text \<open>
  C6.  The claim: the unary resolver maps Host and HostPinned to Host, Device to Device and
  Unified to the configured default policy, and never returns Undefined.

  The assignment for Unified stands inside
  \<^verbatim>\<open>#if defined(HYPRE_USING_GPU) || defined(HYPRE_USING_DEVICE_OPENMP)\<close>.  In a host-only
  build the result stays Undefined whatever the default policy is: it is returned as such
  where \<^verbatim>\<open>hypre_assert\<close> does not abort, and the process stops at the assertion where it
  does.
\<close>

theorem GetExecPolicy1_core_unified_counterexample:
  "default_exec_policy (boot HYPRE_EXEC_HOST []) = HYPRE_EXEC_HOST \<and>
   hypre_GetExecPolicy1_core host_build hypre_MEMORY_UNIFIED (boot HYPRE_EXEC_HOST []) =
     Return HYPRE_EXEC_UNDEFINED (boot HYPRE_EXEC_HOST []) \<and>
   hypre_GetExecPolicy1_core (host_build\<lparr>hypre_assert_aborts := True\<rparr>) hypre_MEMORY_UNIFIED
     (boot HYPRE_EXEC_HOST []) = Abort Assertion_failed (boot HYPRE_EXEC_HOST [])"
  by (simp add: hypre_GetExecPolicy1_core_def hypre_assert_def host_build_def boot_def)

text \<open>
  C6, as amended.  In every build Host and HostPinned resolve to Host and Device to
  Device.  In a build with \<^verbatim>\<open>HYPRE_USING_GPU\<close> or \<^verbatim>\<open>HYPRE_USING_DEVICE_OPENMP\<close>, Unified
  resolves to the configured default policy (the assertion fires if that policy is itself
  Undefined); in a build with neither, Unified leaves the result Undefined.  In a build where a failed \<^verbatim>\<open>hypre_assert\<close> aborts, no location makes the
  call return Undefined.
\<close>

theorem GetExecPolicy1_core_cases:
  "hypre_GetExecPolicy1_core cfg hypre_MEMORY_HOST w = Return HYPRE_EXEC_HOST w \<and>
   hypre_GetExecPolicy1_core cfg hypre_MEMORY_HOST_PINNED w = Return HYPRE_EXEC_HOST w \<and>
   hypre_GetExecPolicy1_core cfg hypre_MEMORY_DEVICE w = Return HYPRE_EXEC_DEVICE w \<and>
   (HYPRE_USING_GPU cfg \<or> HYPRE_USING_DEVICE_OPENMP cfg \<longrightarrow>
      hypre_GetExecPolicy1_core cfg hypre_MEMORY_UNIFIED w =
        (if default_exec_policy w = HYPRE_EXEC_UNDEFINED \<and> hypre_assert_aborts cfg
         then Abort Assertion_failed w else Return (default_exec_policy w) w)) \<and>
   (\<not> HYPRE_USING_GPU cfg \<and> \<not> HYPRE_USING_DEVICE_OPENMP cfg \<longrightarrow>
      hypre_GetExecPolicy1_core cfg hypre_MEMORY_UNIFIED w =
        (if hypre_assert_aborts cfg
         then Abort Assertion_failed w else Return HYPRE_EXEC_UNDEFINED w)) \<and>
   (hypre_assert_aborts cfg \<longrightarrow>
      (\<forall>w'. hypre_GetExecPolicy1_core cfg location w \<noteq> Return HYPRE_EXEC_UNDEFINED w'))"
  by (cases location)
     (auto simp add: hypre_GetExecPolicy1_core_def hypre_assert_def
        hypre_WrongMemoryLocation_def)

theorem GetExecPolicy1_core_cases_witness:
  "hypre_GetExecPolicy1_core cuda_debug_build hypre_MEMORY_HOST (boot HYPRE_EXEC_DEVICE []) =
     Return HYPRE_EXEC_HOST (boot HYPRE_EXEC_DEVICE []) \<and>
   hypre_GetExecPolicy1_core cuda_debug_build hypre_MEMORY_UNIFIED (boot HYPRE_EXEC_DEVICE []) =
     Return HYPRE_EXEC_DEVICE (boot HYPRE_EXEC_DEVICE []) \<and>
   hypre_GetExecPolicy1_core cuda_debug_build hypre_MEMORY_UNIFIED
     (boot HYPRE_EXEC_UNDEFINED []) = Abort Assertion_failed (boot HYPRE_EXEC_UNDEFINED [])"
  using GetExecPolicy1_core_cases
      [of cuda_debug_build "boot HYPRE_EXEC_DEVICE []" hypre_MEMORY_UNIFIED]
    GetExecPolicy1_core_cases
      [of cuda_debug_build "boot HYPRE_EXEC_UNDEFINED []" hypre_MEMORY_UNIFIED]
  by (simp add: sample_defs)

text \<open>
  C7.  For every location (recognized or not) and every zero-fill flag, an allocation of
  size 0 returns null and leaves the state as it was: no allocator is called, nothing is
  reported.  The same holds through \<^verbatim>\<open>hypre_MAlloc\<close> and \<^verbatim>\<open>hypre_CAlloc\<close>.
\<close>

theorem MAlloc_core_zero_size:
  "hypre_MAlloc_core cfg 0 zeroinit location w = Return 0 w \<and>
   hypre_MAlloc cfg 0 loc w = Return 0 w \<and>
   hypre_CAlloc cfg 0 elt_size loc w = Return 0 w \<and>
   hypre_CAlloc cfg cnt 0 loc w = Return 0 w \<and>
   new_events w (final (hypre_MAlloc_core cfg 0 zeroinit location w)) = []"
  by (simp add: hypre_MAlloc_core_def hypre_MAlloc_def hypre_CAlloc_def new_events_def)

text \<open>
  C8.  The claim: for every pair of pointers, a copy of size 0, or with destination equal
  to source, returns without modifying memory or invoking a transfer primitive.

  The null test comes before the test \<^verbatim>\<open>dst == src\<close>: with both pointers null and a
  non-zero size the warning branch is taken, and its \<^verbatim>\<open>hypre_assert(0)\<close> stops the process
  in a build where a failed assertion aborts.
\<close>

theorem Memcpy_core_no_op_counterexample:
  "\<not> returns
      (hypre_Memcpy_core cuda_debug_build 0 0 16 hypre_MEMORY_HOST hypre_MEMORY_HOST
         (boot HYPRE_EXEC_DEVICE []))"
  by (simp add: hypre_Memcpy_core_def hypre_assert_def cuda_debug_build_def cuda_build_def)

text \<open>
  C8, as amended.  For every pair of locations, a copy of size 0, or with destination equal
  to source, modifies no memory and invokes no primitive.  When the size is 0 or the
  common pointer is not null it returns with the state untouched; when both pointers are
  null and the size is not 0 it takes the null-pointer branch and returns exactly when a
  failed \<^verbatim>\<open>hypre_assert\<close> does not abort.
\<close>

theorem Memcpy_core_no_op:
  assumes "nbytes = 0 \<or> dst = src"
  shows "memory (final (hypre_Memcpy_core cfg dst src nbytes loc_dst loc_src w)) = memory w \<and>
         \<not> list_ex is_call
            (new_events w (final (hypre_Memcpy_core cfg dst src nbytes loc_dst loc_src w))) \<and>
         (if nbytes = 0 \<or> dst \<noteq> 0
          then hypre_Memcpy_core cfg dst src nbytes loc_dst loc_src w = Return () w
          else returns (hypre_Memcpy_core cfg dst src nbytes loc_dst loc_src w) =
                 (\<not> hypre_assert_aborts cfg))"
  using assms
  by (auto simp add: hypre_Memcpy_core_def hypre_assert_def hypre_printf_def
      new_events_def emit_def)

theorem Memcpy_core_no_op_witness:
  "hypre_Memcpy_core cuda_build 8192 4096 0 hypre_MEMORY_DEVICE hypre_MEMORY_HOST sample_heap =
     Return () sample_heap \<and>
   hypre_Memcpy_core cuda_build 4096 4096 2 hypre_MEMORY_HOST hypre_MEMORY_HOST sample_heap =
     Return () sample_heap \<and>
   returns (hypre_Memcpy_core cuda_build 0 0 2 hypre_MEMORY_HOST hypre_MEMORY_HOST
     sample_heap) \<and>
   memory (final (hypre_Memcpy_core cuda_build 0 0 2 hypre_MEMORY_HOST hypre_MEMORY_HOST
     sample_heap)) = memory sample_heap"
  using Memcpy_core_no_op
      [of 0 8192 4096 cuda_build hypre_MEMORY_DEVICE hypre_MEMORY_HOST sample_heap]
    Memcpy_core_no_op
      [of 2 4096 4096 cuda_build hypre_MEMORY_HOST hypre_MEMORY_HOST sample_heap]
    Memcpy_core_no_op
      [of 2 0 0 cuda_build hypre_MEMORY_HOST hypre_MEMORY_HOST sample_heap]
  by (simp add: sample_defs)

text \<open>
  C9.  The binary execution-policy resolver is commutative: for every pair of locations,
  the sentinel and the mixed pairs included, in every build and state, swapping the
  operands changes neither the outcome nor the state.
\<close>

theorem GetExecPolicy2_core_commutative:
  "hypre_GetExecPolicy2_core cfg a b w = hypre_GetExecPolicy2_core cfg b a w"
  by (cases a; cases b; simp add: hypre_GetExecPolicy2_core_def Let_def)

text \<open>
  C10.  For every location, every non-null pointer and every non-zero size,
  \<^verbatim>\<open>hypre_ReAlloc_v2\<close> with the old size equal to the new size returns the pointer it was
  given and leaves the state as it was: no allocation, no copy, no free.
\<close>

theorem ReAlloc_v2_same_size:
  "p \<noteq> 0 \<Longrightarrow> s \<noteq> 0 \<Longrightarrow> hypre_ReAlloc_v2 cfg p s s location w = Return p w"
  by (simp add: hypre_ReAlloc_v2_def)

theorem ReAlloc_v2_same_size_witness:
  "hypre_ReAlloc_v2 cuda_build 4096 16 16 HYPRE_MEMORY_DEVICE sample_heap =
     Return 4096 sample_heap"
  using ReAlloc_v2_same_size [of 4096 16 cuda_build HYPRE_MEMORY_DEVICE sample_heap]
  by simp

end
